theory Spec2Isabelle
  imports Complex_Main "HOL-Library.Word"
begin

unbundle bit_operations_syntax

section \<open>Shared helpers\<close>

text \<open>
  C++ reads a \<open>std::array\<close> with \<open>operator[]\<close>, which checks nothing: an index
  past the end is undefined behaviour. The model makes that a value: \<open>None\<close>.
\<close>

definition array_at :: "'a list \<Rightarrow> nat \<Rightarrow> 'a option" where
  "array_at xs i = (if i < length xs then Some (xs ! i) else None)"

section \<open>operation\_generator.hpp\<close>

text \<open>
  \<open>enum class operation_t : uint8_t { READ = 0, INSERT = 1, UPDATE = 2, REMOVE = 3,
  SCAN = 4 }\<close>. The enumeration is kept as its underlying byte, because the constructor
  fills the table with \<open>static_cast<operation_t>(n)\<close> of a 32-bit number, and a cast
  does not check that \<open>n\<close> names an enumerator.
\<close>

type_synonym operation_t = "8 word"

definition READ :: operation_t where "READ = 0"
definition INSERT :: operation_t where "INSERT = 1"
definition UPDATE :: operation_t where "UPDATE = 2"
definition REMOVE :: operation_t where "REMOVE = 3"
definition SCAN :: operation_t where "SCAN = 4"

text \<open>
  The only non-static member: \<open>std::array<operation_t, 256> ops_\<close>. An Isabelle name
  cannot end with an underscore, so a member \<open>x_\<close> of the source is written \<open>x_'\<close>
  throughout.
\<close>

record operation_generator_t =
  ops_' :: "operation_t list"

text \<open>
  The static thread-local members of the class, for the calling thread:
  \<open>seed_\<close> (here \<open>op_seed_'\<close>, since the key generator has a static of the same
  name) and \<open>uni_dist\<close>, a \<open>foedus::assorted::UniformRandom\<close>. That class comes from
  \<open>uniform_random.hpp\<close>; its state is the type parameter \<open>'u\<close> and its two methods
  used here, \<open>set_current_seed\<close> and \<open>next_uint32\<close>, are parameters of the
  functions that call them.
\<close>

record 'u operation_generator_statics =
  op_seed_' :: "32 word"
  uni_dist :: 'u

text \<open>
  The constructor's loop
  \<open>for (unsigned int i = 0; i < ops_.size(); ++i) ops_[i] = static_cast<operation_t>(op_weights(gen));\<close>
  where \<open>op_weights\<close> is the \<open>std::discrete_distribution<uint32_t>\<close> built from the
  five ratios and \<open>gen\<close> the engine it draws from. The distribution's call operator is
  the parameter \<open>op_weights\<close>: it takes the engine's state and returns the number drawn
  and the engine's new state.
\<close>

function ops_loop ::
  "('g \<Rightarrow> 32 word \<times> 'g) \<Rightarrow> nat \<Rightarrow> 'g \<Rightarrow> operation_t list \<Rightarrow> operation_t list" where
  "ops_loop op_weights i gen ops =
     (if i < length ops
      then (case op_weights gen of
              (n, gen') \<Rightarrow> ops_loop op_weights (Suc i) gen' (ops[i := ucast n]))
      else ops)"
  by pat_completeness auto
termination
  by (relation "measure (\<lambda>(op_weights, i, gen, ops). length ops - i)") auto

text \<open>
  The engine's state after \<open>i\<close> draws of \<open>op_weights\<close>: what \<open>gen\<close> holds when
  the loop reaches slot \<open>i\<close>. It is used to say what each slot is filled with.
\<close>

primrec engine_after :: "('g \<Rightarrow> 32 word \<times> 'g) \<Rightarrow> nat \<Rightarrow> 'g \<Rightarrow> 'g" where
  "engine_after op_weights 0 gen = gen"
| "engine_after op_weights (Suc i) gen = engine_after op_weights i (snd (op_weights gen))"

text \<open>
  How many of the next \<open>n\<close> draws of \<open>op_weights\<close>, from the engine state \<open>gen\<close>,
  satisfy \<open>P\<close>, added to \<open>acc\<close>. It is used to count the slots that hold an
  operation.
\<close>

primrec count_draws ::
  "('g \<Rightarrow> 32 word \<times> 'g) \<Rightarrow> (32 word \<Rightarrow> bool) \<Rightarrow> nat \<Rightarrow> 'g \<Rightarrow> nat \<Rightarrow> nat" where
  "count_draws op_weights P 0 gen acc = acc"
| "count_draws op_weights P (Suc n) gen acc =
     count_draws op_weights P n (snd (op_weights gen))
       (if P (fst (op_weights gen)) then Suc acc else acc)"

text \<open>
  The constructor \<open>operation_generator_t(read, insert, update, remove, scan)\<close>.
  \<^item> \<open>default_engine\<close> is the state of a default-constructed
    \<open>std::default_random_engine\<close> (the local \<open>gen\<close>);
  \<^item> \<open>discrete_distribution\<close> is the standard library's distribution: given the weights,
    the call operator described above; the ratios are C++ \<open>float\<close>s, of type \<open>'f\<close>
    here, and are only handed to the distribution;
  \<^item> \<open>mem\<close> is what the 256 slots of \<open>ops_\<close> hold before the loop: the array is
    not initialised, so any content is possible;
  \<^item> \<open>read_r\<close>, ..., \<open>scan_r\<close> are the parameters \<open>read\<close>, ..., \<open>scan\<close>;
  \<^item> the statics are passed through: the constructor neither reads nor writes them.
\<close>

definition new_operation_generator_t ::
  "'g \<Rightarrow> ('f list \<Rightarrow> 'g \<Rightarrow> 32 word \<times> 'g) \<Rightarrow> 'f \<Rightarrow> 'f \<Rightarrow> 'f \<Rightarrow> 'f \<Rightarrow> 'f \<Rightarrow>
   (nat \<Rightarrow> operation_t) \<Rightarrow> 'u operation_generator_statics \<Rightarrow>
   operation_generator_t \<times> 'u operation_generator_statics" where
  "new_operation_generator_t default_engine discrete_distribution
       read_r insert_r update_r remove_r scan_r mem st =
     (\<lparr>ops_' = ops_loop (discrete_distribution [read_r, insert_r, update_r, remove_r, scan_r]) 0
                default_engine (map mem [0..<256])\<rparr>, st)"

text \<open>
  \<open>operation_t next() { return ops_[uni_dist.next_uint32() & 0xff]; }\<close>
  The draw advances the thread's \<open>uni_dist\<close>; the table read is \<open>array_at\<close>.
\<close>

definition operation_generator_next ::
  "('u \<Rightarrow> 32 word \<times> 'u) \<Rightarrow> operation_generator_t \<Rightarrow> 'u operation_generator_statics \<Rightarrow>
   operation_t option \<times> 'u operation_generator_statics" where
  "operation_generator_next next_uint32 og st =
     (case next_uint32 (uni_dist st) of
        (d, u') \<Rightarrow> (array_at (ops_' og) (unat (d AND 0xff)), st\<lparr>uni_dist := u'\<rparr>))"

text \<open>
  \<open>static void set_seed(uint32_t seed) { seed_ = seed; uni_dist.set_current_seed(seed_); }\<close>
\<close>

definition operation_generator_set_seed ::
  "(32 word \<Rightarrow> 'u \<Rightarrow> 'u) \<Rightarrow> 32 word \<Rightarrow> 'u operation_generator_statics \<Rightarrow>
   'u operation_generator_statics" where
  "operation_generator_set_seed set_current_seed seed st =
     st\<lparr>op_seed_' := seed, uni_dist := set_current_seed seed (uni_dist st)\<rparr>"

text \<open>\<open>static uint32_t get_seed() noexcept { return seed_; }\<close>\<close>

definition operation_generator_get_seed :: "'u operation_generator_statics \<Rightarrow> 32 word" where
  "operation_generator_get_seed st = op_seed_' st"

section \<open>key\_generator.hpp\<close>

text \<open>
  The data members of \<open>key_generator_t\<close>: \<open>const size_t N_\<close>, \<open>const size_t size_\<close>,
  \<open>const std::string prefix_\<close> (its bytes) and \<open>bool tid_prefix\<close>. \<open>size_t\<close> is the
  64-bit unsigned integer of the platforms the benchmark runs on. The public pointer
  \<open>thread_stat\<close> is left out: no function of this theory reads it.
\<close>

record key_generator_t =
  N_' :: "64 word"
  size_' :: "64 word"
  prefix_' :: "8 word list"
  tid_prefix :: bool


text \<open>
  \<open>size_t size() const noexcept
     { return tid_prefix ? prefix_.size() + size_ + 1 : prefix_.size() + size_ ; }\<close>
  The sums are sums of \<open>size_t\<close>, so they wrap around at \<open>2 ^ 64\<close>.
\<close>

definition key_generator_size :: "key_generator_t \<Rightarrow> 64 word" where
  "key_generator_size kg =
     (if tid_prefix kg then word_of_nat (length (prefix_' kg)) + size_' kg + 1
      else word_of_nat (length (prefix_' kg)) + size_' kg)"

text \<open>\<open>size_t keyspace() const noexcept { return N_; }\<close>\<close>

definition keyspace :: "key_generator_t \<Rightarrow> 64 word" where
  "keyspace kg = N_' kg"

text \<open>
  The static thread-local members: \<open>seed_\<close>, \<open>generator_\<close> (a
  \<open>std::default_random_engine\<close>, whose state is the type parameter \<open>'g\<close>),
  \<open>current_id_\<close> and \<open>buf_\<close>. Every thread has its own copy of each, so the
  program's state holds one such record per thread: a function from thread numbers.
\<close>

record 'g key_generator_statics =
  seed_' :: "32 word"
  generator_' :: 'g
  current_id_' :: "64 word"
  buf_' :: "8 word list"

type_synonym 'g thread_locals = "nat \<Rightarrow> 'g key_generator_statics"

text \<open>
  \<open>static void set_seed(uint32_t seed) { seed_ = seed; generator_.seed(seed_); }\<close>
  run by thread \<open>t\<close>: both statics named are \<open>t\<close>'s own. \<open>engine_seed\<close> is the
  standard library's \<open>seed(value)\<close> of the engine, which puts the engine in the state
  of an engine constructed from \<open>value\<close>.
\<close>

definition key_generator_set_seed ::
  "(32 word \<Rightarrow> 'g) \<Rightarrow> nat \<Rightarrow> 32 word \<Rightarrow> 'g thread_locals \<Rightarrow> 'g thread_locals" where
  "key_generator_set_seed engine_seed t seed tls =
     tls(t := (tls t)\<lparr>seed_' := seed, generator_' := engine_seed seed\<rparr>)"

text \<open>\<open>static uint32_t get_seed() noexcept { return seed_; }\<close>, run by thread \<open>t\<close>.\<close>

definition key_generator_get_seed :: "nat \<Rightarrow> 'g thread_locals \<Rightarrow> 32 word" where
  "key_generator_get_seed t tls = seed_' (tls t)"

text \<open>
  \<open>std::default_random_engine\<close> is implementation-defined. In libstdc++ it is
  \<open>minstd_rand0\<close>, the linear congruential engine with multiplier 16807, increment 0
  and modulus \<open>2 ^ 31 - 1\<close>: seeding stores the seed modulo the modulus (1 when that is
  0), and a draw multiplies the state and returns it. The two functions below are used
  only to run the model at concrete inputs.
\<close>

definition minstd_rand0_seed :: "32 word \<Rightarrow> nat" where
  "minstd_rand0_seed s =
     (if unat s mod 2147483647 = 0 then 1 else unat s mod 2147483647)"

definition minstd_rand0_next :: "nat \<Rightarrow> nat \<times> nat" where
  "minstd_rand0_next x = (16807 * x mod 2147483647, 16807 * x mod 2147483647)"

subsection \<open>Key encoding\<close>

text \<open>
  Byte \<open>k\<close> of a 64-bit identifier, byte 0 the least significant: the identifier
  shifted right by \<open>8 * k\<close> bits, cut to a byte.
\<close>

definition byte_of :: "64 word \<Rightarrow> nat \<Rightarrow> 8 word" where
  "byte_of w k = ucast (drop_bit (8 * k) w)"

text \<open>
  Modelled from the spec: \<open>bits_shift\<close> is declared in \<open>key_generator.hpp\<close>
  (\<open>void bits_shift(char *buf_ptr, uint64_t id)\<close>, "Format generated ID") and defined
  in \<open>key_generator.cpp\<close>, which is not among the sources. The spec's data model gives
  the key's last part as the "encoded identifier (big-endian-shifted 8-byte integer,
  truncated or zero-padded to the configured key size)"; the header: "If the specified
  key size is smaller than 8 Bytes, the higher bits are discarded. If the specified key
  size is larger than 8 Bytes, zeroes are preppended to match the size." The model is
  that encoding: the bytes of the identifier are taken by shifting, the key holds the
  low \<open>size_\<close> of them, most significant first, after \<open>size_ - 8\<close> zero bytes when
  \<open>size_\<close> exceeds 8. The spec calls the shift a scrambling and defines no function of
  the identifier beyond it; the model has the shift and nothing else. The result is the
  list of the \<open>size_\<close> bytes written.
\<close>

definition bits_shift :: "key_generator_t \<Rightarrow> 64 word \<Rightarrow> 8 word list" where
  "bits_shift kg v =
     (let n = unat (size_' kg)
      in if n < 8 then map (byte_of v) (rev [0..<n])
         else replicate (n - 8) 0 @ map (byte_of v) (rev [0..<8]))"


subsection \<open>Generating keys\<close>


text \<open>
  The spec's error of kind (d): "generator exhaustion/range errors (e.g., requesting a
  sequential id beyond \<open>N\<close>) - fatal".
\<close>

datatype error = IdOutOfRange

text \<open>
  Modelled from the spec: the two overloads of \<open>key_generator_t::next\<close> are declared in
  \<open>key_generator.hpp\<close> and defined in \<open>key_generator.cpp\<close>, which is not among the
  sources. The spec: "If \<open>in_sequence\<close>, returns the next integer in an internal
  monotonically increasing per-thread cursor (used only by the deterministic load
  phase); else draws from the configured distribution", "if \<open>negative_access\<close>, draws
  an identifier [...] outside \<open>[1, N]\<close>"; requesting a sequential identifier beyond
  \<open>N\<close> is the fatal range error. The cursor is \<open>current_id_\<close>. A draw is the variant's
  virtual \<open>next_id\<close>, which rests on the distribution classes; it is the parameter
  \<open>draw\<close>, given the \<open>negative_access\<close> flag and the thread's engine.
\<close>

definition take_id ::
  "(bool \<Rightarrow> 'g \<Rightarrow> 64 word \<times> 'g) \<Rightarrow> key_generator_t \<Rightarrow> bool \<Rightarrow> bool \<Rightarrow>
   'g key_generator_statics \<Rightarrow> error + 64 word \<times> 'g key_generator_statics" where
  "take_id draw kg negative_access in_sequence st =
     (if in_sequence
      then (if current_id_' st \<le> N_' kg
            then Inr (current_id_' st, st\<lparr>current_id_' := current_id_' st + 1\<rparr>)
            else Inl IdOutOfRange)
      else (case draw negative_access (generator_' st) of
              (v, g') \<Rightarrow> Inr (v, st\<lparr>generator_' := g'\<rparr>)))"


text \<open>
  Modelled from the spec: \<open>next(tid, negative_access, in_sequence)\<close>, the time-based
  overload, which "additionally embeds \<open>thread_id\<close> as a one-byte field". The header:
  "if time-based, the keys are in three parts: prefix (optional), tid, id".
\<close>

definition key_generator_next_tid ::
  "(bool \<Rightarrow> 'g \<Rightarrow> 64 word \<times> 'g) \<Rightarrow> key_generator_t \<Rightarrow> 8 word \<Rightarrow> bool \<Rightarrow> bool \<Rightarrow>
   'g key_generator_statics \<Rightarrow> error + 8 word list \<times> 'g key_generator_statics" where
  "key_generator_next_tid draw kg tid negative_access in_sequence st =
     (case take_id draw kg negative_access in_sequence st of
        Inl e \<Rightarrow> Inl e
      | Inr (v, st') \<Rightarrow>
          (let key = prefix_' kg @ [tid] @ bits_shift kg v
           in Inr (key, st'\<lparr>buf_' := key @ drop (length key) (buf_' st')\<rparr>)))"

section \<open>benchmark.hpp\<close>


text \<open>\<open>enum class distribution_t : uint8_t { UNIFORM = 0, SELFSIMILAR = 1, ZIPFIAN = 2 }\<close>\<close>

datatype distribution_t = UNIFORM | SELFSIMILAR | ZIPFIAN








section \<open>The standard library at concrete inputs\<close>

text \<open>
  A default-constructed engine is seeded with \<open>default_seed = 1\<close>.
\<close>

definition minstd_rand0_default :: nat where
  "minstd_rand0_default = minstd_rand0_seed 1"

text \<open>
  \<open>std::discrete_distribution\<close> leaves its algorithm to the implementation. libstdc++
  draws \<open>p = std::generate_canonical<double, 53>\<close> from the engine; for
  \<open>minstd_rand0\<close>, whose range has 2147483646 values, that takes two draws \<open>x1\<close>,
  \<open>x2\<close> and is \<open>((x1 - 1) + (x2 - 1) * 2147483646) / 2147483646\<^sup>2\<close>. The library
  computes in \<open>double\<close>; the functions of this section compute in exact rational
  arithmetic and take the ratios as rationals. They are used only to run the model at
  concrete inputs.
\<close>

definition generate_canonical :: "nat \<Rightarrow> rat \<times> nat" where
  "generate_canonical g =
     (case minstd_rand0_next g of
        (x1, g1) \<Rightarrow>
          (case minstd_rand0_next g1 of
             (x2, g2) \<Rightarrow>
               (of_nat ((x1 - 1) + (x2 - 1) * 2147483646)
                  / of_nat (2147483646 * 2147483646), g2)))"

text \<open>\<open>std::partial_sum\<close>: the running sums of a list, from \<open>acc\<close>.\<close>

fun partial_sum :: "rat \<Rightarrow> rat list \<Rightarrow> rat list" where
  "partial_sum acc [] = []"
| "partial_sum acc (x # xs) = (acc + x) # partial_sum (acc + x) xs"

text \<open>
  The distribution's cumulative probabilities in libstdc++: none for fewer than two
  weights; otherwise the weights are divided by their sum and accumulated, and the last
  cumulative probability is set to 1.
\<close>

definition cumulative :: "rat list \<Rightarrow> rat list" where
  "cumulative ws =
     (if length ws < 2 then []
      else butlast (partial_sum 0 (map (\<lambda>w. w / sum_list ws) ws)) @ [1])"

text \<open>
  The call operator in libstdc++: 0 when there are no cumulative probabilities;
  otherwise the position of the first cumulative probability that is not less than
  \<open>p\<close> (\<open>std::lower_bound\<close> on the ascending list).
\<close>

definition libstdcxx_discrete_distribution :: "rat list \<Rightarrow> nat \<Rightarrow> 32 word \<times> nat" where
  "libstdcxx_discrete_distribution ws g =
     (if cumulative ws = [] then (0, g)
      else (case generate_canonical g of
              (p, g') \<Rightarrow>
                (word_of_nat (length (takeWhile (\<lambda>c. c < p) (cumulative ws))), g')))"

section \<open>Properties of the operation generator\<close>

text \<open>The loop's equation unfolds forever as a rewrite rule: it is used by hand.\<close>

declare ops_loop.simps [simp del]

text \<open>\<open>static_cast<operation_t>\<close> of a 32-bit number keeps its low byte.\<close>

lemma unat_ucast_32_8: "unat (ucast (n :: 32 word) :: 8 word) = unat n mod 256"
  by (simp add: unsigned_ucast_eq take_bit_eq_mod)

text \<open>The loop keeps the array's size.\<close>

lemma length_ops_loop: "length (ops_loop w i g ops) = length ops"
proof (induction w i g ops rule: ops_loop.induct)
  case (1 w i g ops)
  show ?case
  proof (cases "i < length ops")
    case True
    obtain n g' where wg: "w g = (n, g')" by (cases "w g")
    have "length (ops_loop w (Suc i) g' (ops[i := ucast n])) = length (ops[i := ucast n])"
      using True wg "1.IH" [of n g'] by simp
    then show ?thesis using True wg by (subst ops_loop.simps) simp
  next
    case False
    then show ?thesis by (subst ops_loop.simps) simp
  qed
qed

text \<open>
  From slot \<open>i\<close> on the loop overwrites every slot: two arrays that agree below
  \<open>i\<close> end up equal.
\<close>

lemma ops_loop_overwrites:
  "length a = length b \<Longrightarrow> take i a = take i b \<Longrightarrow> ops_loop w i g a = ops_loop w i g b"
proof (induction w i g a arbitrary: b rule: ops_loop.induct)
  case (1 w i g a)
  show ?case
  proof (cases "i < length a")
    case True
    obtain n g' where wg: "w g = (n, g')" by (cases "w g")
    have len: "length (a[i := ucast n]) = length (b[i := ucast n])"
      using "1.prems" by simp
    have tk: "take (Suc i) (a[i := ucast n]) = take (Suc i) (b[i := ucast n])"
      using "1.prems" True by (simp add: take_Suc_conv_app_nth)
    have step: "ops_loop w (Suc i) g' (a[i := ucast n]) = ops_loop w (Suc i) g' (b[i := ucast n])"
      using True wg len tk "1.IH" [of n g' "b[i := ucast n]"] by simp
    have L: "ops_loop w i g a = ops_loop w (Suc i) g' (a[i := ucast n])"
      using True wg by (subst ops_loop.simps) simp
    have R: "ops_loop w i g b = ops_loop w (Suc i) g' (b[i := ucast n])"
      using True wg "1.prems"(1) by (subst ops_loop.simps) simp
    show ?thesis unfolding L R by (rule step)
  next
    case False
    then have "take i a = a" "take i b = b" using "1.prems" by simp_all
    then have "a = b" using "1.prems"(2) by metis
    then show ?thesis by simp
  qed
qed

text \<open>
  When the distribution only returns numbers below 5, and the slots below \<open>i\<close> hold
  such numbers, every slot does after the loop.
\<close>

lemma ops_loop_range:
  "\<forall>g. fst (w g) < 5 \<Longrightarrow> \<forall>k<i. k < length ops \<longrightarrow> unat (ops ! k) < 5 \<Longrightarrow>
         \<forall>k<length ops. unat (ops_loop w i g ops ! k) < 5"
proof (induction w i g ops rule: ops_loop.induct)
  case (1 w i g ops)
  show ?case
  proof (cases "i < length ops")
    case True
    obtain n g' where wg: "w g = (n, g')" by (cases "w g")
    have pre: "\<forall>k<Suc i. k < length (ops[i := ucast n]) \<longrightarrow> unat ((ops[i := ucast n]) ! k) < 5"
    proof (intro allI impI)
      fix k assume k: "k < Suc i" "k < length (ops[i := ucast n])"
      have n5: "n < 5" using "1.prems"(1) wg by (metis fst_conv)
      have "unat (ucast n :: 8 word) < 5"
        using n5 by (simp add: word_less_nat_alt unat_ucast_32_8)
      then show "unat ((ops[i := ucast n]) ! k) < 5"
        using k "1.prems"(2) by (cases "k = i") (simp_all add: less_Suc_eq)
    qed
    have "\<forall>k<length (ops[i := ucast n]). unat (ops_loop w (Suc i) g' (ops[i := ucast n]) ! k) < 5"
      using True wg pre "1.prems"(1) "1.IH" [of n g'] by simp
    then show ?thesis using True wg by (subst ops_loop.simps) simp
  next
    case False
    then show ?thesis using "1.prems"(2) by (subst ops_loop.simps) simp
  qed
qed

text \<open>Masking with \<open>0xff\<close> keeps the low 8 bits: a number below 256.\<close>

lemma mask_ff_bound: "unat ((d :: 32 word) AND 0xff) < 256"
proof -
  have "d AND 0xff = take_bit 8 d"
    by (simp add: take_bit_eq_mask mask_eq_exp_minus_1)
  moreover have "unat (take_bit 8 d) = take_bit 8 (unat d)"
    by (rule unsigned_take_bit_eq)
  moreover have "take_bit 8 (unat d) < 2 ^ 8"
    by (rule take_bit_nat_less_exp)
  ultimately show ?thesis by simp
qed

text \<open>A byte below 5 is one of the five enumerators.\<close>

lemma operation_t_cases:
  assumes "unat (x :: operation_t) < 5"
  shows "x \<in> {READ, INSERT, UPDATE, REMOVE, SCAN}"
proof -
  have x: "x = of_nat (unat x)" by simp
  consider "unat x = 0" | "unat x = 1" | "unat x = 2" | "unat x = 3" | "unat x = 4"
    using assms by linarith
  then show ?thesis
  proof cases
    case 1 then show ?thesis using x by (simp add: READ_def)
  next
    case 2 then show ?thesis using x by (simp add: INSERT_def)
  next
    case 3 then have "x = 2" using x by (metis of_nat_numeral) 
    then show ?thesis by (simp add: UPDATE_def)
  next
    case 4 then have "x = 3" using x by (metis of_nat_numeral)
    then show ?thesis by (simp add: REMOVE_def)
  next
    case 5 then have "x = 4" using x by (metis of_nat_numeral)
    then show ?thesis by (simp add: SCAN_def)
  qed
qed

text \<open>The constructor leaves a table of 256 entries.\<close>

lemma length_new_ops:
  "length (ops_' (fst (new_operation_generator_t E D r i u rm s mem st))) = 256"
  by (simp add: new_operation_generator_t_def length_ops_loop)

text \<open>
  Claim C10. \<open>operation_generator_t::next()\<close> is safe for every 32-bit draw. For a
  generator built by the constructor (from any ratios, any engine, any distribution and
  any prior content of the array) and any \<open>next_uint32\<close> in any state: the draw masked
  with \<open>0xff\<close> is an index below 256, the size of the table, so the read is in bounds
  and \<open>next()\<close> returns a value; and that value is one of READ, INSERT, UPDATE,
  REMOVE, SCAN, given what the C++ standard promises of a
  \<open>std::discrete_distribution\<close> over five weights: it returns a number in \<open>[0, 5)\<close>.
\<close>

theorem operation_generator_next_safe:
  "unat (fst (next_uint32 (uni_dist st)) AND 0xff) <
     length (ops_' (fst (new_operation_generator_t default_engine discrete_distribution
        read_r insert_r update_r remove_r scan_r mem st0))) \<and>
   (\<exists>op. fst (operation_generator_next next_uint32
        (fst (new_operation_generator_t default_engine discrete_distribution
               read_r insert_r update_r remove_r scan_r mem st0)) st) = Some op \<and>
     ((\<forall>g. fst (discrete_distribution [read_r, insert_r, update_r, remove_r, scan_r] g) < 5) \<longrightarrow>
        op \<in> {READ, INSERT, UPDATE, REMOVE, SCAN}))"
proof -
  define og where "og = fst (new_operation_generator_t default_engine discrete_distribution
        read_r insert_r update_r remove_r scan_r mem st0)"
  define d where "d = fst (next_uint32 (uni_dist st))"
  define k where "k = unat (d AND 0xff)"
  have len: "length (ops_' og) = 256"
    unfolding og_def by (rule length_new_ops)
  have k: "k < 256" unfolding k_def by (rule mask_ff_bound)
  have res: "fst (operation_generator_next next_uint32 og st) = Some (ops_' og ! k)"
    using k len
    by (simp add: operation_generator_next_def array_at_def k_def d_def case_prod_beta)
  have rng: "ops_' og ! k \<in> {READ, INSERT, UPDATE, REMOVE, SCAN}"
    if h: "\<forall>g. fst (discrete_distribution [read_r, insert_r, update_r, remove_r, scan_r] g) < 5"
  proof -
    have "\<forall>j<length (map mem [0..<256]).
            unat (ops_loop (discrete_distribution [read_r, insert_r, update_r, remove_r, scan_r]) 0
                    default_engine (map mem [0..<256]) ! j) < 5"
      by (rule ops_loop_range [OF h]) simp
    then have "unat (ops_' og ! k) < 5"
      using k by (simp add: og_def new_operation_generator_t_def)
    then show ?thesis by (rule operation_t_cases)
  qed
  show ?thesis
    unfolding og_def [symmetric] d_def [symmetric] k_def [symmetric]
    using k len res rng by simp
qed

text \<open>
  The theorem at a concrete input: a distribution that returns the engine's state modulo
  5, which is below 5, and a draw function on a counter.
\<close>

theorem operation_generator_next_safe_witness:
  "(\<forall>g. fst ((\<lambda>ws g. (word_of_nat (g mod 5), Suc g)) [1, 0, 0, 0, 0 :: nat] (g :: nat)) < (5 :: 32 word)) \<and>
   (\<exists>op. fst (operation_generator_next (\<lambda>u :: nat. (word_of_nat (u * 7), Suc u))
        (fst (new_operation_generator_t (1 :: nat) (\<lambda>ws g. (word_of_nat (g mod 5), Suc g))
               (1 :: nat) 0 0 0 0 (\<lambda>i. 0) \<lparr>op_seed_' = 1729, uni_dist = (0 :: nat)\<rparr>))
        \<lparr>op_seed_' = 1729, uni_dist = (3 :: nat)\<rparr>) = Some op \<and>
      op \<in> {READ, INSERT, UPDATE, REMOVE, SCAN})"
proof -
  have h: "\<forall>g. fst ((\<lambda>ws g. (word_of_nat (g mod 5), Suc g)) [1, 0, 0, 0, 0 :: nat] (g :: nat)) < (5 :: 32 word)"
  proof
    fix g :: nat
    have "g mod 5 < 5" by simp
    then have "unat (word_of_nat (g mod 5) :: 32 word) < 5"
      by (simp add: unat_of_nat)
    then show "fst ((\<lambda>ws g. (word_of_nat (g mod 5), Suc g)) [1, 0, 0, 0, 0 :: nat] g) < (5 :: 32 word)"
      by (simp add: word_less_nat_alt)
  qed
  show ?thesis
    using h operation_generator_next_safe
      [of "\<lambda>u :: nat. (word_of_nat (u * 7), Suc u)" "\<lparr>op_seed_' = 1729, uni_dist = (3 :: nat)\<rparr>"
          "1 :: nat" "\<lambda>ws g. (word_of_nat (g mod 5), Suc g)" "1 :: nat" 0 0 0 0 "\<lambda>i. 0"
          "\<lparr>op_seed_' = 1729, uni_dist = (0 :: nat)\<rparr>"]
    by blast
qed

text \<open>
  Claim C9. Two \<open>operation_generator_t\<close> objects constructed with the same five ratios
  hold identical tables, whatever \<open>set_seed\<close> calls came before either construction
  (\<open>seeds\<close>, in any thread-local state \<open>st1\<close>, against any other state \<open>st2\<close>)
  and whatever the arrays held before: the constructor draws from a default-constructed
  local engine and leaves the statics as they are, so the seed never reaches the table.
  What the seed does reach is the index \<open>next()\<close> reads the table at: after
  \<open>set_seed(seed)\<close> it is the low byte of the draw from the re-seeded \<open>uni_dist\<close>.
\<close>

theorem same_ratios_same_table:
  "ops_' (fst (new_operation_generator_t default_engine discrete_distribution
                 read_r insert_r update_r remove_r scan_r mem1
                 (foldl (\<lambda>st seed. operation_generator_set_seed set_current_seed seed st) st1 seeds)))
   = ops_' (fst (new_operation_generator_t default_engine discrete_distribution
                 read_r insert_r update_r remove_r scan_r mem2 st2)) \<and>
   snd (new_operation_generator_t default_engine discrete_distribution
          read_r insert_r update_r remove_r scan_r mem1 st1) = st1 \<and>
   fst (operation_generator_next next_uint32 og
          (operation_generator_set_seed set_current_seed seed st1))
     = array_at (ops_' og)
         (unat (fst (next_uint32 (set_current_seed seed (uni_dist st1))) AND 0xff))"
proof -
  have "ops_loop (discrete_distribution [read_r, insert_r, update_r, remove_r, scan_r]) 0
          default_engine (map mem1 [0..<256])
      = ops_loop (discrete_distribution [read_r, insert_r, update_r, remove_r, scan_r]) 0
          default_engine (map mem2 [0..<256])"
    by (rule ops_loop_overwrites) simp_all
  then show ?thesis
    by (simp add: new_operation_generator_t_def operation_generator_next_def
          operation_generator_set_seed_def case_prod_beta)
qed

text \<open>The theorem after two \<open>set_seed\<close> calls, for arrays that held different bytes.\<close>

theorem same_ratios_same_table_witness:
  "ops_' (fst (new_operation_generator_t (1 :: nat) (\<lambda>ws g. (word_of_nat (g mod 5), Suc g))
                 (1 :: nat) 0 0 0 0 (\<lambda>i. 0)
                 (foldl (\<lambda>st seed. operation_generator_set_seed (\<lambda>s u. unat s) seed st)
                    \<lparr>op_seed_' = 0, uni_dist = (0 :: nat)\<rparr> [1729, 42])))
   = ops_' (fst (new_operation_generator_t (1 :: nat) (\<lambda>ws g. (word_of_nat (g mod 5), Suc g))
                 (1 :: nat) 0 0 0 0 (\<lambda>i. 7) \<lparr>op_seed_' = 0, uni_dist = (0 :: nat)\<rparr>))"
  using same_ratios_same_table
    [of "1 :: nat" "\<lambda>ws g. (word_of_nat (g mod 5), Suc g)" "1 :: nat" 0 0 0 0 "\<lambda>i. 0"
        "\<lambda>s u. unat s" "\<lparr>op_seed_' = 0, uni_dist = (0 :: nat)\<rparr>" "[1729, 42]" "\<lambda>i. 7"
        "\<lparr>op_seed_' = 0, uni_dist = (0 :: nat)\<rparr>"]
  by simp

text \<open>
  The loop leaves the slots below its counter alone.
\<close>

lemma ops_loop_below: "k < i \<Longrightarrow> ops_loop w i g ops ! k = ops ! k"
proof (induction w i g ops rule: ops_loop.induct)
  case (1 w i g ops)
  show ?case
  proof (cases "i < length ops")
    case True
    obtain n g' where wg: "w g = (n, g')" by (cases "w g")
    have "ops_loop w (Suc i) g' (ops[i := ucast n]) ! k = (ops[i := ucast n]) ! k"
      using True wg "1.prems" "1.IH" [of n g'] by simp
    moreover have "ops_loop w i g ops = ops_loop w (Suc i) g' (ops[i := ucast n])"
      using True wg by (subst ops_loop.simps) simp
    ultimately show ?thesis using "1.prems" by simp
  next
    case False
    then show ?thesis by (subst ops_loop.simps) simp
  qed
qed

text \<open>
  Slot \<open>k\<close>, from the counter on, is filled with the draw made when the loop reaches
  it: the cast of what the distribution returns on the engine's state after \<open>k - i\<close>
  draws.
\<close>

lemma ops_loop_slot:
  "i \<le> k \<Longrightarrow> k < length ops \<Longrightarrow>
     ops_loop w i g ops ! k = ucast (fst (w (engine_after w (k - i) g)))"
proof (induction w i g ops rule: ops_loop.induct)
  case (1 w i g ops)
  have il: "i < length ops" using "1.prems" by simp
  obtain n g' where wg: "w g = (n, g')" by (cases "w g")
  have unf: "ops_loop w i g ops = ops_loop w (Suc i) g' (ops[i := ucast n])"
    using il wg by (subst ops_loop.simps) simp
  show ?case
  proof (cases "k = i")
    case True
    have "ops_loop w (Suc i) g' (ops[i := ucast n]) ! k = (ops[i := ucast n]) ! k"
      using True by (intro ops_loop_below) simp
    then show ?thesis using True il wg unf by simp
  next
    case False
    then have lt: "Suc i \<le> k" using "1.prems" by simp
    have "ops_loop w (Suc i) g' (ops[i := ucast n]) ! k
            = ucast (fst (w (engine_after w (k - Suc i) g')))"
      using il wg lt "1.prems" "1.IH" [of n g'] by simp
    moreover have "engine_after w (k - i) g = engine_after w (k - Suc i) g'"
    proof -
      have "k - i = Suc (k - Suc i)" using lt by simp
      then show ?thesis using wg by simp
    qed
    ultimately show ?thesis using unf by simp
  qed
qed

text \<open>
  So slot \<open>i\<close> of a constructed table is the \<open>i\<close>-th draw from the default
  engine, and \<open>next()\<close> returns the slot at the low byte of its draw.
\<close>

lemma new_ops_slot:
  "i < 256 \<Longrightarrow>
     ops_' (fst (new_operation_generator_t E D r1 r2 r3 r4 r5 mem st)) ! i
       = ucast (fst (D [r1, r2, r3, r4, r5] (engine_after (D [r1, r2, r3, r4, r5]) i E)))"
  using ops_loop_slot [of 0 i "map mem [0..<256]" "D [r1, r2, r3, r4, r5]" E]
  by (simp add: new_operation_generator_t_def)

lemma next_reads_slot:
  "fst (operation_generator_next next_uint32
          (fst (new_operation_generator_t E D r1 r2 r3 r4 r5 mem st0)) st)
     = Some (ops_' (fst (new_operation_generator_t E D r1 r2 r3 r4 r5 mem st0))
               ! unat (fst (next_uint32 (uni_dist st)) AND 0xff))"
  using mask_ff_bound [of "fst (next_uint32 (uni_dist st))"]
  by (simp add: operation_generator_next_def array_at_def case_prod_beta length_new_ops)

text \<open>
  The cast keeps a number below 5 as it is.
\<close>

lemma cast_small: "n < 5 \<Longrightarrow> unat (ucast (n :: 32 word) :: 8 word) = unat n"
proof -
  assume "n < 5"
  then have "unat n < 5" by (simp add: word_less_nat_alt)
  then show ?thesis by (simp add: unat_ucast_32_8)
qed

text \<open>
  Claim C2, as the code has it. For every ratio tuple, the 256-entry table is built by
  sampling: slot \<open>i\<close> holds the cast of the \<open>i\<close>-th number drawn from the discrete
  distribution weighted by the ratios (successive draws from one default-constructed
  engine); and \<open>next()\<close> returns the slot at the low byte of its 32-bit draw, so each
  operation is returned for exactly the low bytes whose slots hold it. Hence an
  operation whose configured ratio is zero is never returned by \<open>next()\<close>, given what
  the C++ standard promises of \<open>std::discrete_distribution\<close> over five weights: it
  returns a number in \<open>[0, 5)\<close>, and never the index of a zero weight. No bound on the
  distance between an operation's share of the slots and its ratio is stated: the
  table is a sample of the distribution, not a rounding of the ratios.
\<close>

theorem table_sampled_slot_by_slot:
  fixes read_r insert_r update_r remove_r scan_r :: "'f::zero"
    and default_engine :: 'g
    and discrete_distribution :: "'f list \<Rightarrow> 'g \<Rightarrow> 32 word \<times> 'g"
    and mem :: "nat \<Rightarrow> operation_t"
    and st0 st :: "'u operation_generator_statics"
    and next_uint32 :: "'u \<Rightarrow> 32 word \<times> 'u"
  defines "ws \<equiv> [read_r, insert_r, update_r, remove_r, scan_r]"
  defines "og \<equiv> fst (new_operation_generator_t default_engine discrete_distribution
                        read_r insert_r update_r remove_r scan_r mem st0)"
  defines "r \<equiv> fst (operation_generator_next next_uint32 og st)"
  shows "(\<forall>i<256. ops_' og ! i
            = ucast (fst (discrete_distribution ws
                            (engine_after (discrete_distribution ws) i default_engine)))) \<and>
         r = Some (ops_' og ! unat (fst (next_uint32 (uni_dist st)) AND 0xff)) \<and>
         ((\<forall>g. fst (discrete_distribution ws g) < 5 \<and>
                ws ! unat (fst (discrete_distribution ws g)) \<noteq> 0) \<longrightarrow>
            (read_r = 0 \<longrightarrow> r \<noteq> Some READ) \<and>
            (insert_r = 0 \<longrightarrow> r \<noteq> Some INSERT) \<and>
            (update_r = 0 \<longrightarrow> r \<noteq> Some UPDATE) \<and>
            (remove_r = 0 \<longrightarrow> r \<noteq> Some REMOVE) \<and>
            (scan_r = 0 \<longrightarrow> r \<noteq> Some SCAN))"
proof (intro conjI impI)
  show slots: "\<forall>i<256. ops_' og ! i
            = ucast (fst (discrete_distribution ws
                            (engine_after (discrete_distribution ws) i default_engine)))"
    unfolding og_def ws_def by (simp add: new_ops_slot)
  show rd: "r = Some (ops_' og ! unat (fst (next_uint32 (uni_dist st)) AND 0xff))"
    unfolding r_def og_def by (rule next_reads_slot)
  define k where "k = unat (fst (next_uint32 (uni_dist st)) AND 0xff)"
  have k: "k < 256" unfolding k_def by (rule mask_ff_bound)
  define n where "n = fst (discrete_distribution ws
                            (engine_after (discrete_distribution ws) k default_engine))"
  have rn: "r = Some (ucast n)" using rd slots k by (simp add: k_def n_def)
  {
    assume c: "\<forall>g. fst (discrete_distribution ws g) < 5 \<and>
                ws ! unat (fst (discrete_distribution ws g)) \<noteq> 0"
    then have n5: "n < 5" and nz: "ws ! unat n \<noteq> 0" by (simp_all add: n_def)
    have un: "unat (ucast n :: 8 word) = unat n" using n5 by (rule cast_small)
    have w: "ws ! unat (ucast n :: 8 word) \<noteq> 0" using nz un by simp
    { assume "read_r = 0" then show "r \<noteq> Some READ"
        using w rn by (auto simp: READ_def ws_def) }
    { assume "insert_r = 0" then show "r \<noteq> Some INSERT"
        using w rn by (auto simp: INSERT_def ws_def) }
    { assume "update_r = 0" then show "r \<noteq> Some UPDATE"
        using w rn by (auto simp: UPDATE_def ws_def) }
    { assume "remove_r = 0" then show "r \<noteq> Some REMOVE"
        using w rn by (auto simp: REMOVE_def ws_def) }
    { assume "scan_r = 0" then show "r \<noteq> Some SCAN"
        using w rn by (auto simp: SCAN_def ws_def) }
  }
qed

text \<open>
  The library model for the ratios (0.5, 0.25, 0.25, 0, 0): its cumulative
  probabilities, the range of \<open>generate_canonical\<close>, and the contract of the
  distribution (a number below 5, of non-zero weight).
\<close>

lemma cumulative_half_quarter_quarter:
  "cumulative [1/2, 1/4, 1/4, 0, 0] = [1/2, 3/4, 1, 1, 1]"
  by (simp add: cumulative_def)

lemma generate_canonical_le_1: "fst (generate_canonical g) \<le> 1"
proof -
  obtain x1 g1 where a: "minstd_rand0_next g = (x1, g1)" by (cases "minstd_rand0_next g")
  obtain x2 g2 where b: "minstd_rand0_next g1 = (x2, g2)" by (cases "minstd_rand0_next g1")
  have "x1 < 2147483647" "x2 < 2147483647"
    using a b by (auto simp: minstd_rand0_next_def)
  then have "x1 - 1 \<le> 2147483646" "x2 - 1 \<le> 2147483645" by simp_all
  then have "(x2 - 1) * 2147483646 \<le> 2147483645 * 2147483646" "x1 - 1 \<le> 2147483646"
    by simp_all
  then have "(x1 - 1) + (x2 - 1) * 2147483646 \<le> 2147483646 * 2147483646" by simp
  then have "(of_nat ((x1 - 1) + (x2 - 1) * 2147483646) :: rat) \<le> of_nat (2147483646 * 2147483646)"
    by (simp only: of_nat_le_iff)
  then show ?thesis using a b by (simp add: generate_canonical_def)
qed

lemma libstdcxx_contract:
  "fst (libstdcxx_discrete_distribution [1/2, 1/4, 1/4, 0, 0] g) < 5 \<and>
   [1/2, 1/4, 1/4, 0, 0 :: rat] ! unat (fst (libstdcxx_discrete_distribution [1/2, 1/4, 1/4, 0, 0] g)) \<noteq> 0"
proof -
  obtain p g' where gc: "generate_canonical g = (p, g')" by (cases "generate_canonical g")
  have p1: "p \<le> 1" using generate_canonical_le_1 [of g] gc by simp
  consider "p \<le> 1/2" | "1/2 < p" "p \<le> 3/4" | "3/4 < p" by linarith
  then show ?thesis
  proof cases
    case 1
    then show ?thesis
      using gc by (simp add: libstdcxx_discrete_distribution_def cumulative_half_quarter_quarter)
  next
    case 2
    then show ?thesis
      using gc by (simp add: libstdcxx_discrete_distribution_def cumulative_half_quarter_quarter)
  next
    case 3
    then have "1/2 < p" by simp
    then show ?thesis
      using gc 3 p1 by (simp add: libstdcxx_discrete_distribution_def cumulative_half_quarter_quarter)
  qed
qed

text \<open>
  The theorem for the ratios (0.5, 0.25, 0.25, 0, 0) with libstdc++'s distribution and
  engine: REMOVE and SCAN, whose ratios are zero, are not returned.
\<close>

theorem table_sampled_slot_by_slot_witness:
  "(\<forall>g. fst (libstdcxx_discrete_distribution [1/2, 1/4, 1/4, 0, 0] g) < 5 \<and>
        [1/2, 1/4, 1/4, 0, 0 :: rat] ! unat (fst (libstdcxx_discrete_distribution [1/2, 1/4, 1/4, 0, 0] g)) \<noteq> 0) \<and>
   fst (operation_generator_next (\<lambda>u :: nat. (word_of_nat u, Suc u))
          (fst (new_operation_generator_t minstd_rand0_default libstdcxx_discrete_distribution
                  (1/2) (1/4) (1/4) 0 0 (\<lambda>i. 0) \<lparr>op_seed_' = 1729, uni_dist = (0 :: nat)\<rparr>))
          \<lparr>op_seed_' = 1729, uni_dist = (7 :: nat)\<rparr>) \<noteq> Some REMOVE \<and>
   fst (operation_generator_next (\<lambda>u :: nat. (word_of_nat u, Suc u))
          (fst (new_operation_generator_t minstd_rand0_default libstdcxx_discrete_distribution
                  (1/2) (1/4) (1/4) 0 0 (\<lambda>i. 0) \<lparr>op_seed_' = 1729, uni_dist = (0 :: nat)\<rparr>))
          \<lparr>op_seed_' = 1729, uni_dist = (7 :: nat)\<rparr>) \<noteq> Some SCAN"
  using libstdcxx_contract
    table_sampled_slot_by_slot
      [where discrete_distribution = libstdcxx_discrete_distribution
         and read_r = "1/2" and insert_r = "1/4" and update_r = "1/4" and remove_r = 0 and scan_r = 0
         and default_engine = minstd_rand0_default and mem = "\<lambda>i. 0"
         and ?st0.0 = "\<lparr>op_seed_' = 1729, uni_dist = (0 :: nat)\<rparr>"
         and st = "\<lparr>op_seed_' = 1729, uni_dist = (7 :: nat)\<rparr>"
         and ?next_uint32.0 = "\<lambda>u :: nat. (word_of_nat u, Suc u)"]
  by blast

text \<open>
  Counting the slots that hold an operation is counting the draws that were cast to
  it.
\<close>

lemma count_draws_filter:
  "count_draws w P n g acc
     = acc + length (filter (\<lambda>i. P (fst (w (engine_after w i g)))) [0..<n])"
proof (induction n arbitrary: g acc)
  case 0
  show ?case by simp
next
  case (Suc n)
  have "[0..<Suc n] = 0 # map Suc [0..<n]"
    by (simp add: upt_conv_Cons map_Suc_upt del: upt_Suc)
  then have "length (filter (\<lambda>i. P (fst (w (engine_after w i g)))) [0..<Suc n])
      = (if P (fst (w g)) then 1 else 0)
        + length (filter (\<lambda>i. P (fst (w (engine_after w i (snd (w g)))))) [0..<n])"
    by (simp add: filter_map comp_def del: upt_Suc)
  then show ?case
    using Suc [of "snd (w g)" "if P (fst (w g)) then Suc acc else acc"] by simp
qed

lemma table_count:
  "length (filter (\<lambda>op. op = x)
     (ops_' (fst (new_operation_generator_t E D r1 r2 r3 r4 r5 mem st))))
   = count_draws (D [r1, r2, r3, r4, r5]) (\<lambda>v. ucast v = x) 256 E 0"
proof -
  let ?t = "ops_' (fst (new_operation_generator_t E D r1 r2 r3 r4 r5 mem st))"
  let ?w = "D [r1, r2, r3, r4, r5]"
  have "?t = map (\<lambda>i. ucast (fst (?w (engine_after ?w i E)))) [0..<256]"
    by (rule nth_equalityI) (simp_all add: length_new_ops new_ops_slot del: upt_Suc)
  then have "length (filter (\<lambda>op. op = x) ?t)
      = length (filter (\<lambda>i. ucast (fst (?w (engine_after ?w i E))) = x) [0..<256])"
    by (simp add: filter_map comp_def del: upt_Suc)
  then show ?thesis by (simp only: count_draws_filter)
qed

text \<open>
  One draw of the library model for the ratios (0.5, 0.25, 0.25, 0, 0), in integers:
  two steps of the engine give \<open>s\<close>, and the index follows from comparing \<open>s\<close>
  with a half and with three quarters of the square of the engine's range.
\<close>

lemma libstdcxx_step:
  "libstdcxx_discrete_distribution [1/2, 1/4, 1/4, 0, 0] g =
     (let x1 = 16807 * g mod 2147483647; x2 = 16807 * x1 mod 2147483647;
          s = (x1 - 1) + (x2 - 1) * 2147483646
      in (if 2 * s \<le> 4611686009837453316 then 0
          else if 4 * s \<le> 13835058029512359948 then 1 else 2, x2))"
proof -
  define x1 where "x1 = 16807 * g mod 2147483647"
  define x2 where "x2 = 16807 * x1 mod 2147483647"
  define s where "s = (x1 - 1) + (x2 - 1) * 2147483646"
  have gc: "generate_canonical g = (of_nat s / 4611686009837453316, x2)"
    by (simp add: generate_canonical_def minstd_rand0_next_def x1_def x2_def s_def)
  have s1: "(of_nat s :: rat) / 4611686009837453316 \<le> 1"
    using generate_canonical_le_1 [of g] gc by simp
  have h: "(1/2 < (of_nat s :: rat) / 4611686009837453316) \<longleftrightarrow> \<not> 2 * s \<le> 4611686009837453316"
  proof -
    have "(1/2 < (of_nat s :: rat) / 4611686009837453316) \<longleftrightarrow> (of_nat 4611686009837453316 :: rat) < of_nat (2 * s)"
      by (simp add: field_simps)
    also have "\<dots> \<longleftrightarrow> 4611686009837453316 < 2 * s" by (simp only: of_nat_less_iff)
    finally show ?thesis by auto
  qed
  have q: "(3/4 < (of_nat s :: rat) / 4611686009837453316) \<longleftrightarrow> \<not> 4 * s \<le> 13835058029512359948"
  proof -
    have "(3/4 < (of_nat s :: rat) / 4611686009837453316) \<longleftrightarrow> (of_nat 13835058029512359948 :: rat) < of_nat (4 * s)"
      by (simp add: field_simps)
    also have "\<dots> \<longleftrightarrow> 13835058029512359948 < 4 * s" by (simp only: of_nat_less_iff)
    finally show ?thesis by auto
  qed
  have n1: "\<not> 1 < (of_nat s :: rat) / 4611686009837453316" using s1 by simp
  show ?thesis
    unfolding x1_def [symmetric] Let_def x2_def [symmetric] s_def [symmetric]
    using gc h q n1
    by (auto simp: libstdcxx_discrete_distribution_def cumulative_half_quarter_quarter)
qed

text \<open>Counting draws one at a time, for a number of draws written as a numeral.\<close>

lemma count_draws_numeral:
  "count_draws w P (numeral k) g acc =
     count_draws w P (pred_numeral k) (snd (w g)) (if P (fst (w g)) then acc + 1 else acc)"
  by (simp add: numeral_eq_Suc)

lemma count_draws_one:
  "count_draws w P 1 g acc = (if P (fst (w g)) then acc + 1 else acc)"
  by simp

text \<open>
  With libstdc++'s engine and distribution, 68 of the first 256 draws for the ratios
  (0.5, 0.25, 0.25, 0, 0) are the index of INSERT.
\<close>

lemma count_insert_draws:
  "count_draws (libstdcxx_discrete_distribution [1/2, 1/4, 1/4, 0, 0])
     (\<lambda>v. ucast v = INSERT) 256 1 0 = 68"
  by (simp add: count_draws_numeral count_draws_one libstdcxx_step Let_def INSERT_def)

text \<open>
  Claim C2 as the specification words it fails where it bounds the frequencies. For
  the ratios (0.5, 0.25, 0.25, 0, 0), which sum to 1, the table that libstdc++ builds
  holds INSERT in 68 of its 256 slots. A uniform low byte, and so a large sample of
  \<open>next()\<close> calls, returns INSERT with frequency 68/256, which is 4/256 away from
  the configured 0.25: more than the 1/256 the claim allows.
\<close>

theorem table_frequency_counterexample:
  "length (filter (\<lambda>op. op = INSERT)
     (ops_' (fst (new_operation_generator_t minstd_rand0_default libstdcxx_discrete_distribution
                    (1/2) (1/4) (1/4) 0 0 (\<lambda>i. 0)
                    \<lparr>op_seed_' = 1729, uni_dist = (0 :: nat)\<rparr>)))) = 68 \<and>
   (1/2 + 1/4 + 1/4 + 0 + 0 :: rat) = 1 \<and>
   \<not> \<bar>of_nat (length (filter (\<lambda>op. op = INSERT)
          (ops_' (fst (new_operation_generator_t minstd_rand0_default libstdcxx_discrete_distribution
                         (1/2) (1/4) (1/4) 0 0 (\<lambda>i. 0)
                         \<lparr>op_seed_' = 1729, uni_dist = (0 :: nat)\<rparr>))))) / 256 - 1/4\<bar>
       \<le> (1/256 :: rat)"
proof -
  have "length (filter (\<lambda>op. op = INSERT)
     (ops_' (fst (new_operation_generator_t minstd_rand0_default libstdcxx_discrete_distribution
                    (1/2) (1/4) (1/4) 0 0 (\<lambda>i. 0)
                    \<lparr>op_seed_' = 1729, uni_dist = (0 :: nat)\<rparr>)))) = 68"
    unfolding table_count using count_insert_draws
    by (simp add: minstd_rand0_default_def minstd_rand0_seed_def)
  then show ?thesis by simp
qed

section \<open>Properties of the key generator's header\<close>

text \<open>
  Claim C7. \<open>size()\<close> returns the total key width: the prefix length plus the
  configured key size, plus exactly one byte when the thread-id prefix mode is enabled.
  The first conjunct is the sum as the code computes it, in \<open>size_t\<close>; the second is
  the same sum of natural numbers, which \<open>size()\<close> returns whenever that sum fits in a
  \<open>size_t\<close> (a key is materialised in a buffer of \<open>KEY_MAX = 128\<close> bytes, far below).
\<close>

theorem key_generator_size_total_width:
  "key_generator_size kg
     = word_of_nat (length (prefix_' kg)) + size_' kg + (if tid_prefix kg then 1 else 0) \<and>
   (length (prefix_' kg) + unat (size_' kg) + 1 < 2 ^ 64 \<longrightarrow>
      unat (key_generator_size kg)
        = length (prefix_' kg) + unat (size_' kg) + (if tid_prefix kg then 1 else 0))"
proof (intro conjI impI)
  show "key_generator_size kg
     = word_of_nat (length (prefix_' kg)) + size_' kg + (if tid_prefix kg then 1 else 0)"
    by (simp add: key_generator_size_def)
next
  assume fits: "length (prefix_' kg) + unat (size_' kg) + 1 < 2 ^ 64"
  then have p: "unat (word_of_nat (length (prefix_' kg)) :: 64 word) = length (prefix_' kg)"
    by (simp add: unat_of_nat)
  have s: "unat (word_of_nat (length (prefix_' kg)) + size_' kg)
             = length (prefix_' kg) + unat (size_' kg)"
    using fits p by (simp add: unat_word_ariths)
  have s1: "unat (word_of_nat (length (prefix_' kg)) + size_' kg + 1)
             = length (prefix_' kg) + unat (size_' kg) + 1"
    using fits s by (simp add: unat_word_ariths)
  show "unat (key_generator_size kg)
        = length (prefix_' kg) + unat (size_' kg) + (if tid_prefix kg then 1 else 0)"
    using s s1 by (simp add: key_generator_size_def)
qed

text \<open>
  The theorem for the prefix "key" and 8-byte keys: 12 bytes with the thread-id byte,
  11 without.
\<close>

theorem key_generator_size_total_width_witness:
  "length (prefix_' \<lparr>N_' = 1000, size_' = 8, prefix_' = [0x6b, 0x65, 0x79], tid_prefix = True\<rparr>)
     + unat (size_' \<lparr>N_' = 1000, size_' = 8, prefix_' = [0x6b, 0x65, 0x79], tid_prefix = True\<rparr>) + 1
     < (2 :: nat) ^ 64 \<and>
   unat (key_generator_size
     \<lparr>N_' = 1000, size_' = 8, prefix_' = [0x6b, 0x65, 0x79], tid_prefix = True\<rparr>) = 12 \<and>
   unat (key_generator_size
     \<lparr>N_' = 1000, size_' = 8, prefix_' = [0x6b, 0x65, 0x79], tid_prefix = False\<rparr>) = 11"
  using key_generator_size_total_width
    [of "\<lparr>N_' = 1000, size_' = 8, prefix_' = [0x6b, 0x65, 0x79], tid_prefix = True\<rparr>"]
    key_generator_size_total_width
    [of "\<lparr>N_' = 1000, size_' = 8, prefix_' = [0x6b, 0x65, 0x79], tid_prefix = False\<rparr>"]
  by simp

text \<open>
  Claim C4, as the code has it. \<open>set_seed(seed)\<close>, called by thread \<open>t\<close>, stores the
  seed in \<open>t\<close>'s own \<open>seed_\<close> and re-seeds \<open>t\<close>'s own engine \<open>generator_\<close> at once:
  whatever state that engine had reached, it is now the state of an engine seeded with
  \<open>seed\<close>. The statics of every other thread are unchanged.
\<close>

theorem set_seed_reseeds_calling_thread:
  "key_generator_set_seed engine_seed t seed tls t
     = (tls t)\<lparr>seed_' := seed, generator_' := engine_seed seed\<rparr> \<and>
   (\<forall>t'. t' \<noteq> t \<longrightarrow> key_generator_set_seed engine_seed t seed tls t' = tls t')"
  by (simp add: key_generator_set_seed_def)

text \<open>
  The theorem with \<open>minstd_rand0\<close> engines that were seeded with 1 and drew once
  (state 16807): after thread 0 calls \<open>set_seed(1729)\<close> its engine is in state 1729,
  and thread 1's engine still in state 16807.
\<close>

theorem set_seed_reseeds_calling_thread_witness:
  "generator_' (key_generator_set_seed minstd_rand0_seed 0 1729
      (\<lambda>t. \<lparr>seed_' = 1, generator_' = fst (minstd_rand0_next (minstd_rand0_seed 1)),
             current_id_' = 1, buf_' = []\<rparr>) 0) = 1729 \<and>
   (1 :: nat) \<noteq> 0 \<and>
   generator_' (key_generator_set_seed minstd_rand0_seed 0 1729
      (\<lambda>t. \<lparr>seed_' = 1, generator_' = fst (minstd_rand0_next (minstd_rand0_seed 1)),
             current_id_' = 1, buf_' = []\<rparr>) 1) = 16807"
  using set_seed_reseeds_calling_thread
    [of minstd_rand0_seed 0 1729
        "\<lambda>t. \<lparr>seed_' = 1, generator_' = fst (minstd_rand0_next (minstd_rand0_seed 1)),
             current_id_' = 1, buf_' = []\<rparr>"]
  by (simp add: minstd_rand0_seed_def minstd_rand0_next_def)

text \<open>
  Claim C4 as the spec states it fails: the engine of thread 0 has been constructed and
  advanced (seeded with 1, one draw), and \<open>set_seed(1729)\<close> on thread 0 changes its
  state.
\<close>

theorem set_seed_advanced_engine_counterexample:
  "generator_' (key_generator_set_seed minstd_rand0_seed 0 1729
      (\<lambda>t. \<lparr>seed_' = 1, generator_' = fst (minstd_rand0_next (minstd_rand0_seed 1)),
             current_id_' = 1, buf_' = []\<rparr>) 0)
   \<noteq> generator_' ((\<lambda>t. \<lparr>seed_' = 1, generator_' = fst (minstd_rand0_next (minstd_rand0_seed 1)),
             current_id_' = 1, buf_' = []\<rparr>) (0 :: nat))"
  by (simp add: key_generator_set_seed_def minstd_rand0_seed_def minstd_rand0_next_def)

section \<open>Properties of the key encoding\<close>







lemma length_bits_shift: "length (bits_shift kg v) = unat (size_' kg)"
  by (simp add: bits_shift_def Let_def)











section \<open>Properties of the generated keys\<close>

text \<open>
  Claim C6. In time-based mode, two threads that generate keys from the same generator
  with \<open>in_sequence = true\<close> and distinct one-byte thread ids never produce the same
  key: whatever the two threads' cursors and engines are (\<open>st1\<close>, \<open>st2\<close>), so for
  any pair of identifiers, the keys the two calls return differ in the thread-id byte
  after the prefix.
\<close>

theorem distinct_tids_distinct_keys:
  "tid1 \<noteq> tid2 \<Longrightarrow>
   key_generator_next_tid draw1 kg tid1 neg1 True st1 = Inr (k1, st1') \<Longrightarrow>
   key_generator_next_tid draw2 kg tid2 neg2 True st2 = Inr (k2, st2') \<Longrightarrow>
   k1 \<noteq> k2"
  by (auto simp: key_generator_next_tid_def Let_def split: sum.splits prod.splits)

text \<open>
  The theorem for thread ids 1 and 2, the prefix "k", 2-byte identifiers and both
  cursors at 5: the keys are \<open>k 01 00 05\<close> and \<open>k 02 00 05\<close>.
\<close>

theorem distinct_tids_distinct_keys_witness:
  "(1 :: 8 word) \<noteq> 2 \<and>
   key_generator_next_tid (\<lambda>neg g. (1, g :: nat))
          \<lparr>N_' = 1000, size_' = 2, prefix_' = [0x6b], tid_prefix = True\<rparr> 1 False True
          \<lparr>seed_' = 1729, generator_' = 1, current_id_' = 5, buf_' = replicate 128 0\<rparr>
     = Inr ([0x6b, 1, 0, 5],
            \<lparr>seed_' = 1729, generator_' = 1, current_id_' = 6,
             buf_' = [0x6b, 1, 0, 5] @ replicate 124 0\<rparr>) \<and>
   key_generator_next_tid (\<lambda>neg g. (1, g :: nat))
          \<lparr>N_' = 1000, size_' = 2, prefix_' = [0x6b], tid_prefix = True\<rparr> 2 False True
          \<lparr>seed_' = 1729, generator_' = 1, current_id_' = 5, buf_' = replicate 128 0\<rparr>
     = Inr ([0x6b, 2, 0, 5],
            \<lparr>seed_' = 1729, generator_' = 1, current_id_' = 6,
             buf_' = [0x6b, 2, 0, 5] @ replicate 124 0\<rparr>) \<and>
   [0x6b, 1, 0, 5] \<noteq> [0x6b, 2, 0, 5 :: 8 word]"
proof -
  let ?kg = "\<lparr>N_' = 1000, size_' = 2, prefix_' = [0x6b], tid_prefix = True\<rparr>"
  let ?st = "\<lparr>seed_' = 1729, generator_' = (1 :: nat), current_id_' = 5, buf_' = replicate 128 0\<rparr>"
  let ?st1 = "\<lparr>seed_' = 1729, generator_' = (1 :: nat), current_id_' = 6,
             buf_' = [0x6b, 1, 0, 5] @ replicate 124 0\<rparr>"
  let ?st2 = "\<lparr>seed_' = 1729, generator_' = (1 :: nat), current_id_' = 6,
             buf_' = [0x6b, 2, 0, 5] @ replicate 124 0\<rparr>"
  have a: "key_generator_next_tid (\<lambda>neg g. (1, g :: nat)) ?kg 1 False True ?st
             = Inr ([0x6b, 1, 0, 5], ?st1)"
    by (simp add: key_generator_next_tid_def take_id_def bits_shift_def byte_of_def upt_rec)
  have b: "key_generator_next_tid (\<lambda>neg g. (1, g :: nat)) ?kg 2 False True ?st
             = Inr ([0x6b, 2, 0, 5], ?st2)"
    by (simp add: key_generator_next_tid_def take_id_def bits_shift_def byte_of_def upt_rec)
  have ne: "(1 :: 8 word) \<noteq> 2" by simp
  show ?thesis using a b ne distinct_tids_distinct_keys [OF ne a b] by simp
qed

section \<open>Properties of the load phase\<close>













end
